theory Spec2Isabelle
  imports Complex_Main
begin

section \<open>Data model (api/models.py)\<close>

text \<open>
  Dates are day numbers and points in time are microseconds on one time line (the
  resolution of Python's datetime); a time of day is the number of microseconds since
  midnight. A single time zone is assumed, so \<open>timezone.now().date()\<close> is the day of
  \<open>now\<close> and \<open>make_aware (combine date time)\<close> is \<open>combine\<close>. Money (DecimalField with
  two places) is counted in cents. Primary keys are Python ints; \<open>0\<close> is the only
  key for which \<open>not self.pk\<close> holds on an instance loaded from the database.
  \<open>Event.date\<close> is a column that is not null: every stored event has a date, and the
  option type is there for the tests the code makes on it (\<open>if event_date\<close>,
  \<open>not self.event.date\<close>). Sums and products of Decimal values are exact: the 28
  digits of the Decimal context are not reached by what the columns hold.
\<close>

type_synonym date = int
type_synonym datetime = int

definition usec_per_day :: int where
  "usec_per_day = 86400000000"

definition date_of :: "datetime \<Rightarrow> date" where
  "date_of dt = dt div usec_per_day"

definition combine :: "date \<Rightarrow> int \<Rightarrow> datetime" where
  "combine d t = d * usec_per_day + t"

datatype Status = Pending | Confirmed | Cancelled

text \<open>
  The value handed to \<open>json.dumps\<close>: a dictionary in insertion order. Strings produced
  by \<open>strftime\<close>, \<open>isoformat\<close> and \<open>str\<close> of a Decimal are kept as the value they print.
\<close>

datatype json =
    JStr string
  | JNum int
  | JBool bool
  | JNull
  | JDateStr date
  | JTimeStr int
  | JIsoStr datetime
  | JDecimalStr int

type_synonym qr = "(string \<times> json) list"

record Event =
  eid :: int
  e_title :: string
  date :: "date option"
  time :: int
  e_price :: int
  total_seats :: int
  available_seats :: int
  is_active :: bool

record Ticket =
  tid :: int
  t_title :: string
  t_price :: int
  event :: "int option"
  user :: "int option"
  purchase_date :: "datetime option"
  status :: Status
  quantity :: int
  reference_number :: "string option"
  qr_code_data :: "qr option"
  cancelled_date :: "datetime option"
  refund_amount :: int

record db =
  events :: "Event list"
  tickets :: "Ticket list"

datatype message =
    QuantityOutOfRange
  | EventNotFound
  | EventNotActive
  | OnlySeatsAvailable int
  | TicketAlreadyCancelled
  | CannotCancelLessThan24h

text \<open>
  \<open>ValidationError\<close> is raised by the serializer (\<open>is_valid (raise_exception=True)\<close>),
  \<open>BadRequest\<close> is a \<open>Response\<close> with status 400 built by the view, \<open>NotFound\<close> is the 404
  of \<open>get_object\<close>, and \<open>AttributeError\<close> is the uncaught Python exception.
\<close>

datatype error =
    ValidationError message
  | BadRequest message
  | NotFound
  | AttributeError

definition Event_get :: "db \<Rightarrow> int \<Rightarrow> Event option" where
  "Event_get d k = find (\<lambda>e. eid e = k) (events d)"

text \<open>
  The related object \<open>ticket.event\<close>. The foreign key is enforced by the database, so a
  key that is set finds its row.
\<close>

definition ticket_event :: "db \<Rightarrow> Ticket \<Rightarrow> Event option" where
  "ticket_event d t = (case event t of None \<Rightarrow> None | Some k \<Rightarrow> Event_get d k)"

definition upsert_event :: "Event \<Rightarrow> Event list \<Rightarrow> Event list" where
  "upsert_event e rows =
     (if list_ex (\<lambda>r. eid r = eid e) rows
      then map (\<lambda>r. if eid r = eid e then e else r) rows
      else rows @ [e])"

text \<open>\<open>Event.save\<close> of an instance loaded from the database.\<close>

definition Event_save :: "db \<Rightarrow> Event \<Rightarrow> db" where
  "Event_save d e =
     (let e' = (if eid e = 0 then e\<lparr>available_seats := total_seats e\<rparr> else e)
      in d\<lparr>events := upsert_event e' (events d)\<rparr>)"

definition total_price :: "Ticket \<Rightarrow> int" where
  "total_price t = t_price t * quantity t"

subsection \<open>Reference numbers\<close>

definition alphabet :: string where
  "alphabet = ''ABCDEFGHIJKLMNOPQRSTUVWXYZ0123456789''"

text \<open>
  The random source is a sequence \<open>rnd\<close> of draws and a position in it;
  \<open>secrets.choice alphabet\<close> takes the next draw below the length of the alphabet.
\<close>

definition choice :: "(nat \<Rightarrow> nat) \<Rightarrow> nat \<Rightarrow> char" where
  "choice rnd i = alphabet ! (rnd i mod length alphabet)"

definition candidate :: "(nat \<Rightarrow> nat) \<Rightarrow> nat \<Rightarrow> string" where
  "candidate rnd pos = ''TKT-'' @ map (choice rnd) [pos..<pos + 8]"

definition ref_exists :: "Ticket list \<Rightarrow> string \<Rightarrow> bool" where
  "ref_exists ts r = list_ex (\<lambda>t. reference_number t = Some r) ts"

text \<open>\<open>Ticket.generate_reference_number\<close> (models.py); \<open>None\<close> is a loop that never ends.\<close>

partial_function (option) Ticket_generate_reference_number ::
  "Ticket list \<Rightarrow> (nat \<Rightarrow> nat) \<Rightarrow> nat \<Rightarrow> (string \<times> nat) option" where
  "Ticket_generate_reference_number ts rnd pos =
     (let ref = candidate rnd pos in
      if \<not> ref_exists ts ref then Some (ref, pos + 8)
      else Ticket_generate_reference_number ts rnd (pos + 8))"

declare Ticket_generate_reference_number.simps [code]

text \<open>\<open>generate_reference_number\<close> (serializers.py), the same loop.\<close>

partial_function (option) generate_reference_number ::
  "Ticket list \<Rightarrow> (nat \<Rightarrow> nat) \<Rightarrow> nat \<Rightarrow> (string \<times> nat) option" where
  "generate_reference_number ts rnd pos =
     (let ref = candidate rnd pos in
      if \<not> ref_exists ts ref then Some (ref, pos + 8)
      else generate_reference_number ts rnd (pos + 8))"

declare generate_reference_number.simps [code]

text \<open>The form the specification gives: an uppercase letter or a digit, by character code.\<close>

definition upper_alnum :: "char \<Rightarrow> bool" where
  "upper_alnum c =
     (let n = (of_char c :: nat) in (65 \<le> n \<and> n \<le> 90) \<or> (48 \<le> n \<and> n \<le> 57))"

definition tkt_form :: "string \<Rightarrow> bool" where
  "tkt_form ref = (take 4 ref = ''TKT-'' \<and> length ref = 12 \<and> list_all upper_alnum (drop 4 ref))"

text \<open>
  What a run of the loop that returns has done: \<open>k\<close> candidates were taken and were
  all stored already, and the next one, which is not, is returned.
\<close>

definition gen_post :: "Ticket list \<Rightarrow> (nat \<Rightarrow> nat) \<Rightarrow> nat \<Rightarrow> string \<times> nat \<Rightarrow> bool" where
  "gen_post ts rnd pos y =
     (\<exists>k. y = (candidate rnd (pos + 8 * k), pos + 8 * k + 8)
          \<and> \<not> ref_exists ts (candidate rnd (pos + 8 * k))
          \<and> (\<forall>j<k. ref_exists ts (candidate rnd (pos + 8 * j))))"

subsection \<open>QR payloads\<close>

fun str_nat :: "nat \<Rightarrow> string" where
  "str_nat n =
     (if n < 10 then [char_of (48 + n)]
      else str_nat (n div 10) @ [char_of (48 + n mod 10)])"

definition str_int :: "int \<Rightarrow> string" where
  "str_int i = (if i < 0 then ''-'' @ str_nat (nat (- i)) else str_nat (nat i))"

definition formatted_date :: "Event \<Rightarrow> json" where
  "formatted_date e = (case date e of Some d \<Rightarrow> JDateStr d | None \<Rightarrow> JStr [])"

definition formatted_time :: "Event \<Rightarrow> json" where
  "formatted_time e = JTimeStr (time e)"

definition json_ref :: "string option \<Rightarrow> json" where
  "json_ref r = (case r of None \<Rightarrow> JNull | Some s \<Rightarrow> JStr s)"

text \<open>
  \<open>Ticket.generate_qr_code_data\<close> (models.py). \<open>unsaved\<close> says that the instance has no
  primary key yet, so that \<open>str (self.id)\<close> prints \<open>None\<close>.
\<close>

definition Ticket_generate_qr_code_data :: "db \<Rightarrow> bool \<Rightarrow> Ticket \<Rightarrow> qr" where
  "Ticket_generate_qr_code_data d unsaved t =
     (let ev = ticket_event d t in
      [(''ticket_id'', JStr (if unsaved then ''None'' else str_int (tid t))),
       (''reference_number'', json_ref (reference_number t)),
       (''event_id'', JStr (case ev of Some e \<Rightarrow> str_int (eid e) | None \<Rightarrow> [])),
       (''event_title'', JStr (case ev of Some e \<Rightarrow> e_title e | None \<Rightarrow> [])),
       (''event_date'', (case ev of Some e \<Rightarrow> formatted_date e | None \<Rightarrow> JStr [])),
       (''event_time'', (case ev of Some e \<Rightarrow> formatted_time e | None \<Rightarrow> JStr [])),
       (''user_id'', JStr (case user t of Some u \<Rightarrow> str_int u | None \<Rightarrow> [])),
       (''quantity'', JNum (quantity t)),
       (''total_price'', JDecimalStr (total_price t)),
       (''purchase_date'', (case purchase_date t of Some p \<Rightarrow> JIsoStr p | None \<Rightarrow> JStr [])),
       (''status'', JStr (case status t of
            Pending \<Rightarrow> ''pending'' | Confirmed \<Rightarrow> ''confirmed'' | Cancelled \<Rightarrow> ''cancelled'')),
       (''verified'', JBool False)])"

text \<open>
  The dictionary literal that \<open>TicketViewSet.create\<close> builds, and the two kinds of
  argument \<open>generate_qr_code_data\<close> (serializers.py) is called with.
\<close>

record ticket_dict =
  d_id :: int
  d_event :: Event
  d_user :: int
  d_quantity :: int
  d_purchase_date :: datetime
  d_reference_number :: string

datatype qr_arg = PyDict ticket_dict | PyTicket Ticket

text \<open>
  \<open>generate_qr_code_data\<close> (serializers.py) reads attributes of its argument:
  \<open>ticket.id\<close> on a dict raises AttributeError, as do \<open>ticket.event.id\<close> and
  \<open>ticket.user.id\<close> on \<open>None\<close>.
\<close>

definition generate_qr_code_data :: "db \<Rightarrow> datetime \<Rightarrow> qr_arg \<Rightarrow> error + qr" where
  "generate_qr_code_data d now arg =
     (case arg of
        PyDict _ \<Rightarrow> Inl AttributeError
      | PyTicket t \<Rightarrow>
          (case ticket_event d t of
             None \<Rightarrow> Inl AttributeError
           | Some e \<Rightarrow>
               (case user t of
                  None \<Rightarrow> Inl AttributeError
                | Some u \<Rightarrow>
                    Inr [(''ticket_id'', JStr (str_int (tid t))),
                         (''reference_number'', json_ref (reference_number t)),
                         (''event_id'', JStr (str_int (eid e))),
                         (''event_title'', JStr (e_title e)),
                         (''user_id'', JStr (str_int u)),
                         (''quantity'', JNum (quantity t)),
                         (''purchase_date'',
                            JIsoStr (case purchase_date t of Some p \<Rightarrow> p | None \<Rightarrow> now)),
                         (''verified'', JBool False)])))"

subsection \<open>Ticket.save\<close>

definition falsy_ref :: "string option \<Rightarrow> bool" where
  "falsy_ref r = (r = None \<or> r = Some [])"

definition fill_price :: "db \<Rightarrow> Ticket \<Rightarrow> Ticket" where
  "fill_price d t =
     (case ticket_event d t of
        Some e \<Rightarrow> if t_price t = 0 then t\<lparr>t_price := e_price e\<rparr> else t
      | None \<Rightarrow> t)"

definition fill_qr :: "db \<Rightarrow> bool \<Rightarrow> Ticket \<Rightarrow> Ticket" where
  "fill_qr d unsaved t =
     (if qr_code_data t = None \<and> ticket_event d t \<noteq> None \<and> user t \<noteq> None
      then t\<lparr>qr_code_data := Some (Ticket_generate_qr_code_data d unsaved t)\<rparr>
      else t)"

definition mark_cancelled :: "datetime \<Rightarrow> Ticket \<Rightarrow> Ticket" where
  "mark_cancelled now t =
     (if status t = Cancelled \<and> cancelled_date t = None
      then t\<lparr>cancelled_date := Some now, refund_amount := total_price t\<rparr>
      else t)"

definition next_tid :: "Ticket list \<Rightarrow> int" where
  "next_tid ts = foldr max (map tid ts) 0 + 1"

definition upsert_ticket :: "Ticket \<Rightarrow> Ticket list \<Rightarrow> Ticket list" where
  "upsert_ticket t rows =
     (if list_ex (\<lambda>r. tid r = tid t) rows
      then map (\<lambda>r. if tid r = tid t then t else r) rows
      else rows @ [t])"

text \<open>
  \<open>super().save\<close>: an instance that is being added gets the next primary key and its
  \<open>purchase_date\<close> (\<open>auto_now_add\<close>); a stored one replaces its row.
\<close>

definition store_ticket :: "db \<Rightarrow> bool \<Rightarrow> datetime \<Rightarrow> Ticket \<Rightarrow> Ticket \<times> db" where
  "store_ticket d adding now t =
     (if adding
      then (let t' = t\<lparr>tid := next_tid (tickets d), purchase_date := Some now\<rparr>
            in (t', d\<lparr>tickets := tickets d @ [t']\<rparr>))
      else (t, d\<lparr>tickets := upsert_ticket t (tickets d)\<rparr>))"

definition save_fields :: "db \<Rightarrow> bool \<Rightarrow> datetime \<Rightarrow> Ticket \<Rightarrow> Ticket" where
  "save_fields d adding now t = mark_cancelled now (fill_qr d adding (fill_price d t))"

definition Ticket_save ::
  "db \<Rightarrow> bool \<Rightarrow> datetime \<Rightarrow> (nat \<Rightarrow> nat) \<Rightarrow> nat \<Rightarrow> Ticket \<Rightarrow> ((Ticket \<times> db) \<times> nat) option" where
  "Ticket_save d adding now rnd pos t =
     (if falsy_ref (reference_number t)
      then (case Ticket_generate_reference_number (tickets d) rnd pos of
              None \<Rightarrow> None
            | Some (r, pos') \<Rightarrow>
                Some (store_ticket d adding now
                        (save_fields d adding now (t\<lparr>reference_number := Some r\<rparr>)), pos'))
      else Some (store_ticket d adding now (save_fields d adding now t), pos))"

section \<open>Purchase (api/serializers.py, api/views.py)\<close>

text \<open>
  A purchase request carries \<open>event_id\<close> and \<open>quantity\<close>; the two optional payment fields
  are never read by the view and are left out of the request.
\<close>

definition TicketPurchaseSerializer_validate :: "db \<Rightarrow> int \<Rightarrow> int \<Rightarrow> error + Event" where
  "TicketPurchaseSerializer_validate d event_id qty =
     (case Event_get d event_id of
        None \<Rightarrow> Inl (ValidationError EventNotFound)
      | Some ev \<Rightarrow>
          if \<not> is_active ev then Inl (ValidationError EventNotActive)
          else if available_seats ev < qty
            then Inl (ValidationError (OnlySeatsAvailable (available_seats ev)))
          else Inr ev)"

text \<open>Field validation (\<open>min_value=1\<close>, \<open>max_value=10\<close>) runs before \<open>validate\<close>.\<close>

definition is_valid :: "db \<Rightarrow> int \<Rightarrow> int \<Rightarrow> error + Event" where
  "is_valid d event_id qty =
     (if qty < 1 \<or> 10 < qty then Inl (ValidationError QuantityOutOfRange)
      else TicketPurchaseSerializer_validate d event_id qty)"

text \<open>
  Lines 88 to 107 of \<open>TicketViewSet.create\<close>, once the first payload \<open>q\<close> is there:
  \<open>Ticket.objects.create\<close>, then the payload is generated again from the stored ticket
  and the ticket is saved. \<open>d\<close> is the state before the transaction, to which an
  exception rolls back.
\<close>

definition create_ticket ::
  "db \<Rightarrow> db \<Rightarrow> Event \<Rightarrow> int \<Rightarrow> int \<Rightarrow> string \<Rightarrow> qr \<Rightarrow> datetime \<Rightarrow> (nat \<Rightarrow> nat) \<Rightarrow> nat
     \<Rightarrow> ((error + Ticket) \<times> db) option" where
  "create_ticket d d1 ev uid qty ref q now rnd pos =
     (case Ticket_save d1 True now rnd pos
             \<lparr>tid = 0, t_title = e_title ev @ '' Ticket'', t_price = e_price ev,
              event = Some (eid ev), user = Some uid, purchase_date = None,
              status = Confirmed, quantity = qty, reference_number = Some ref,
              qr_code_data = Some q, cancelled_date = None, refund_amount = 0\<rparr> of
        None \<Rightarrow> None
      | Some ((t, d2), pos') \<Rightarrow>
          (case generate_qr_code_data d2 now (PyTicket t) of
             Inl err \<Rightarrow> Some (Inl err, d)
           | Inr q2 \<Rightarrow>
               (case Ticket_save d2 False now rnd pos' (t\<lparr>qr_code_data := Some q2\<rparr>) of
                  None \<Rightarrow> None
                | Some ((t2, d3), _) \<Rightarrow> Some (Inr t2, d3))))"

text \<open>
  \<open>TicketViewSet.create\<close> for the authenticated user \<open>uid\<close>. The keyword arguments of
  \<open>Ticket.objects.create\<close> are evaluated in order: a reference number, then the
  dictionary (with a second reference number), then \<open>generate_qr_code_data\<close> on that
  dictionary.
\<close>

definition create ::
  "db \<Rightarrow> int \<Rightarrow> int \<Rightarrow> int \<Rightarrow> datetime \<Rightarrow> (nat \<Rightarrow> nat) \<Rightarrow> nat \<Rightarrow> ((error + Ticket) \<times> db) option" where
  "create d uid event_id qty now rnd pos =
     (case is_valid d event_id qty of
        Inl err \<Rightarrow> Some (Inl err, d)
      | Inr ev \<Rightarrow>
          if available_seats ev < qty
          then Some (Inl (BadRequest (OnlySeatsAvailable (available_seats ev))), d)
          else
            (let ev' = ev\<lparr>available_seats := available_seats ev - qty\<rparr>;
                 d1 = Event_save d ev'
             in case generate_reference_number (tickets d1) rnd pos of
                  None \<Rightarrow> None
                | Some (ref, pos1) \<Rightarrow>
                    (case generate_reference_number (tickets d1) rnd pos1 of
                       None \<Rightarrow> None
                     | Some (ref2, pos2) \<Rightarrow>
                         (case generate_qr_code_data d1 now
                                 (PyDict \<lparr>d_id = 0, d_event = ev', d_user = uid,
                                          d_quantity = qty, d_purchase_date = now,
                                          d_reference_number = ref2\<rparr>) of
                            Inl err \<Rightarrow> Some (Inl err, d)
                          | Inr q \<Rightarrow> create_ticket d d1 ev' uid qty ref q now rnd pos2))))"

section \<open>Cancellation\<close>

definition get_queryset :: "db \<Rightarrow> int \<Rightarrow> Ticket list" where
  "get_queryset d uid = filter (\<lambda>t. user t = Some uid) (tickets d)"

definition get_object :: "db \<Rightarrow> int \<Rightarrow> int \<Rightarrow> Ticket option" where
  "get_object d uid pk = find (\<lambda>t. tid t = pk) (get_queryset d uid)"

text \<open>The window test of the view: whole days between the event's date and today.\<close>

definition too_late :: "Event \<Rightarrow> datetime \<Rightarrow> bool" where
  "too_late ev now = (case date ev of None \<Rightarrow> False | Some dt \<Rightarrow> dt - date_of now < 1)"

text \<open>\<open>TicketViewSet.cancel\<close>; a success returns the refund amount of the response.\<close>

definition cancel ::
  "db \<Rightarrow> int \<Rightarrow> int \<Rightarrow> datetime \<Rightarrow> (nat \<Rightarrow> nat) \<Rightarrow> nat \<Rightarrow> ((error + int) \<times> db) option" where
  "cancel d uid pk now rnd pos =
     (case get_object d uid pk of
        None \<Rightarrow> Some (Inl NotFound, d)
      | Some t \<Rightarrow>
          if status t = Cancelled then Some (Inl (BadRequest TicketAlreadyCancelled), d)
          else
            (case ticket_event d t of
               None \<Rightarrow> Some (Inl AttributeError, d)
             | Some ev \<Rightarrow>
                 if too_late ev now then Some (Inl (BadRequest CannotCancelLessThan24h), d)
                 else
                   (let d1 = Event_save d (ev\<lparr>available_seats := available_seats ev + quantity t\<rparr>)
                    in case Ticket_save d1 False now rnd pos (t\<lparr>status := Cancelled\<rparr>) of
                         None \<Rightarrow> None
                       | Some ((t', d2), _) \<Rightarrow> Some (Inr (t_price t' * quantity t'), d2))))"

text \<open>\<open>Ticket.can_be_cancelled\<close> and \<open>Ticket.cancel\<close> (models.py).\<close>

definition can_be_cancelled :: "db \<Rightarrow> Ticket \<Rightarrow> datetime \<Rightarrow> bool" where
  "can_be_cancelled d t now =
     (if status t \<noteq> Confirmed then False
      else
        (case ticket_event d t of
           None \<Rightarrow> False
         | Some ev \<Rightarrow>
             (case date ev of
                None \<Rightarrow> False
              | Some dt \<Rightarrow> 24 * 60 * 60 * 1000000 < combine dt (time ev) - now)))"

definition Ticket_cancel ::
  "db \<Rightarrow> Ticket \<Rightarrow> int option \<Rightarrow> datetime \<Rightarrow> (nat \<Rightarrow> nat) \<Rightarrow> nat \<Rightarrow> (bool \<times> db) option" where
  "Ticket_cancel d t refund now rnd pos =
     (if \<not> can_be_cancelled d t now then Some (False, d)
      else
        (let t1 = t\<lparr>status := Cancelled, cancelled_date := Some now,
                    refund_amount := (case refund of Some r \<Rightarrow> r | None \<Rightarrow> total_price t)\<rparr>;
             d1 = (case ticket_event d t of
                     Some ev \<Rightarrow> Event_save d (ev\<lparr>available_seats := available_seats ev + quantity t\<rparr>)
                   | None \<Rightarrow> d)
         in case Ticket_save d1 False now rnd pos t1 of
              None \<Rightarrow> None
            | Some ((_, d2), _) \<Rightarrow> Some (True, d2)))"

section \<open>Statistics\<close>

subsection \<open>The float of a Decimal\<close>

text \<open>
  \<open>float (x)\<close> of a Decimal \<open>x\<close> with two places, \<open>c\<close> cents: the double nearest to
  \<open>c / 100\<close>, ties to the even mantissa. \<open>Float m e\<close> is the double \<open>m * 2 ^ e\<close> with
  \<open>2 ^ 52 \<le> \<bar>m\<bar> < 2 ^ 53\<close> (or \<open>m = 0\<close>); beyond the largest double the result is
  infinite. \<open>bits a\<close> is the number of binary digits of \<open>a\<close>.
\<close>

datatype pyfloat = Float int int | PosInf | NegInf

function bits :: "int \<Rightarrow> int" where
  "bits n = (if n \<le> 0 then 0 else 1 + bits (n div 2))"
  by pat_completeness auto
termination
  by (relation "measure nat") auto

declare bits.simps [simp del]

definition round_half_even :: "int \<Rightarrow> int \<Rightarrow> int" where
  "round_half_even n d =
     (let q = n div d; r = n mod d
      in if 2 * r < d then q else if d < 2 * r then q + 1 else if even q then q else q + 1)"

definition float_of_cents :: "int \<Rightarrow> pyfloat" where
  "float_of_cents c =
     (if c = 0 then Float 0 0
      else
        (let a = \<bar>c\<bar>;
             b = bits a;
             l = (if (if 7 \<le> b then 100 * 2 ^ nat (b - 7) \<le> a else 100 \<le> a * 2 ^ nat (7 - b))
                  then b - 7 else b - 8);
             e = l - 52;
             m = (if 0 \<le> e then round_half_even a (100 * 2 ^ nat e)
                  else round_half_even (a * 2 ^ nat (- e)) 100);
             m' = (if m = 2 ^ 53 then 2 ^ 52 else m);
             e' = (if m = 2 ^ 53 then e + 1 else e)
         in if 971 < e' then (if c < 0 then NegInf else PosInf)
            else Float (if c < 0 then - m' else m') e'))"

definition event_date_gte :: "db \<Rightarrow> date \<Rightarrow> Ticket \<Rightarrow> bool" where
  "event_date_gte d today t =
     (case ticket_event d t of
        None \<Rightarrow> False
      | Some ev \<Rightarrow> (case date ev of None \<Rightarrow> False | Some dt \<Rightarrow> today \<le> dt))"

text \<open>\<open>TicketViewSet.stats\<close>: total_tickets, upcoming_tickets and total_spent.\<close>

definition stats :: "db \<Rightarrow> int \<Rightarrow> datetime \<Rightarrow> nat \<times> nat \<times> pyfloat" where
  "stats d uid now =
     (let ts = get_queryset d uid;
          total_tickets = length ts;
          upcoming_tickets =
            length (filter (\<lambda>t. status t = Confirmed \<and> event_date_gte d (date_of now) t) ts);
          total_spent =
            sum_list (map (\<lambda>t. t_price t * quantity t) (filter (\<lambda>t. status t = Confirmed) ts))
      in (total_tickets, upcoming_tickets, float_of_cents total_spent))"

subsection \<open>The statistics in the words of the specification\<close>

fun count_where :: "('a \<Rightarrow> bool) \<Rightarrow> 'a list \<Rightarrow> nat" where
  "count_where P [] = 0"
| "count_where P (x # xs) = (if P x then Suc (count_where P xs) else count_where P xs)"

fun sum_where :: "('a \<Rightarrow> bool) \<Rightarrow> ('a \<Rightarrow> int) \<Rightarrow> 'a list \<Rightarrow> int" where
  "sum_where P f [] = 0"
| "sum_where P f (x # xs) = (if P x then f x + sum_where P f xs else sum_where P f xs)"

text \<open>The date of the event a ticket is for, when there is one.\<close>

definition event_day :: "db \<Rightarrow> Ticket \<Rightarrow> date option" where
  "event_day d t = Option.bind (event t) (\<lambda>k. Option.bind (Event_get d k) date)"

definition on_or_after :: "date \<Rightarrow> date option \<Rightarrow> bool" where
  "on_or_after today day = (case day of Some dt \<Rightarrow> today \<le> dt | None \<Rightarrow> False)"

definition later_than :: "date \<Rightarrow> date option \<Rightarrow> bool" where
  "later_than today day = (case day of Some dt \<Rightarrow> today < dt | None \<Rightarrow> False)"

definition spec_total_count :: "db \<Rightarrow> int \<Rightarrow> nat" where
  "spec_total_count d uid = count_where (\<lambda>t. user t = Some uid) (tickets d)"

definition spec_upcoming_future :: "db \<Rightarrow> int \<Rightarrow> datetime \<Rightarrow> nat" where
  "spec_upcoming_future d uid now =
     count_where (\<lambda>t. user t = Some uid \<and> status t = Confirmed
                       \<and> later_than (date_of now) (event_day d t)) (tickets d)"

definition spec_upcoming_from_today :: "db \<Rightarrow> int \<Rightarrow> datetime \<Rightarrow> nat" where
  "spec_upcoming_from_today d uid now =
     count_where (\<lambda>t. user t = Some uid \<and> status t = Confirmed
                       \<and> on_or_after (date_of now) (event_day d t)) (tickets d)"

definition spec_total_spent :: "db \<Rightarrow> int \<Rightarrow> int" where
  "spec_total_spent d uid =
     sum_where (\<lambda>t. user t = Some uid \<and> status t = Confirmed)
       (\<lambda>t. t_price t * quantity t) (tickets d)"

section \<open>Example states\<close>

text \<open>
  An event on day 10 at 11:00 with ten seats at 20.00, a ticket of user 7 for three of
  them, and the random source that draws 0, 1, 2, ...
\<close>

definition rnd0 :: "nat \<Rightarrow> nat" where
  "rnd0 i = i"

definition ev10 :: Event where
  "ev10 = \<lparr>eid = 1, e_title = ''Concert'', date = Some 10, time = 39600000000,
           e_price = 2000, total_seats = 10, available_seats = 10, is_active = True\<rparr>"

definition tk1 :: Ticket where
  "tk1 = \<lparr>tid = 1, t_title = ''Concert Ticket'', t_price = 2000, event = Some 1,
          user = Some 7, purchase_date = Some 0, status = Confirmed, quantity = 3,
          reference_number = Some ''TKT-ABCDEFGH'',
          qr_code_data = Some [(''verified'', JBool False)],
          cancelled_date = None, refund_amount = 0\<rparr>"

definition db_sale :: db where
  "db_sale = \<lparr>events = [ev10], tickets = []\<rparr>"

definition db_sold :: db where
  "db_sold = \<lparr>events = [ev10\<lparr>available_seats := 7\<rparr>], tickets = [tk1]\<rparr>"

text \<open>Day 9 at 12:00, which is 23 hours before the event.\<close>

definition noon_day9 :: datetime where
  "noon_day9 = 820800000000"

text \<open>The event switched off, and a ticket that is still pending.\<close>

definition db_closed :: db where
  "db_closed = \<lparr>events = [ev10\<lparr>is_active := False\<rparr>], tickets = []\<rparr>"

definition db_pending :: db where
  "db_pending = \<lparr>events = [ev10\<lparr>available_seats := 7\<rparr>], tickets = [tk1\<lparr>status := Pending\<rparr>]\<rparr>"

text \<open>The ticket cancelled at \<open>now\<close>, its three seats back on the event.\<close>

definition db_refunded :: "datetime \<Rightarrow> db" where
  "db_refunded now =
     \<lparr>events = [ev10],
      tickets = [tk1\<lparr>status := Cancelled, cancelled_date := Some now, refund_amount := 6000\<rparr>]\<rparr>"

text \<open>
  A ticket that was cancelled at time 5 and confirmed again afterwards (the admin action
  \<open>confirm_tickets\<close> updates the status only), and the state after it is cancelled again.
\<close>

definition db_reconfirmed :: db where
  "db_reconfirmed =
     \<lparr>events = [ev10], tickets = [tk1\<lparr>cancelled_date := Some 5, refund_amount := 6000\<rparr>]\<rparr>"

definition db_recancelled :: db where
  "db_recancelled =
     \<lparr>events = [ev10\<lparr>available_seats := 13\<rparr>],
      tickets = [tk1\<lparr>status := Cancelled, cancelled_date := Some 5, refund_amount := 6000\<rparr>]\<rparr>"

text \<open>The state in which \<open>Ticket.cancel\<close> leaves the ticket that was confirmed again.\<close>

definition db_restamped :: db where
  "db_restamped =
     \<lparr>events = [ev10\<lparr>available_seats := 13\<rparr>],
      tickets = [tk1\<lparr>status := Cancelled, cancelled_date := Some 100, refund_amount := 6000\<rparr>]\<rparr>"

text \<open>
  The ticket with unit price 0 (bought while the event was free), and the state in
  which \<open>Ticket.cancel\<close> leaves it.
\<close>

definition db_free :: db where
  "db_free = \<lparr>events = [ev10\<lparr>available_seats := 7\<rparr>], tickets = [tk1\<lparr>t_price := 0\<rparr>]\<rparr>"

definition db_free_cancelled :: db where
  "db_free_cancelled =
     \<lparr>events = [ev10],
      tickets = [tk1\<lparr>status := Cancelled, cancelled_date := Some 100, refund_amount := 0\<rparr>]\<rparr>"

text \<open>A second ticket, whose reference number is the second candidate of \<open>rnd0\<close>.\<close>

definition tk2 :: Ticket where
  "tk2 = tk1\<lparr>tid := 2, reference_number := Some ''TKT-IJKLMNOP''\<rparr>"

text \<open>Day 10 at 12:00, an hour after the event has begun.\<close>

definition noon_day10 :: datetime where
  "noon_day10 = 907200000000"

text \<open>
  Tickets at the highest price of the column, 99999999.99: one ticket of 900801 seats,
  and two tickets that cost one cent less together.
\<close>

definition db_big :: db where
  "db_big = \<lparr>events = [ev10], tickets = [tk1\<lparr>t_price := 9999999999, quantity := 900801\<rparr>]\<rparr>"

definition db_big_less :: db where
  "db_big_less =
     \<lparr>events = [ev10],
      tickets = [tk1\<lparr>t_price := 9999999999, quantity := 900800\<rparr>,
                 tk2\<lparr>t_price := 9999999998, quantity := 1\<rparr>]\<rparr>"

section \<open>Properties of the reference numbers\<close>

lemma alphabet_upper_alnum: "list_all upper_alnum alphabet"
  by (simp add: alphabet_def upper_alnum_def)

lemma choice_upper_alnum: "upper_alnum (choice rnd i)"
proof -
  have "rnd i mod length alphabet < length alphabet"
    by (simp add: alphabet_def)
  then have "choice rnd i \<in> set alphabet"
    unfolding choice_def by (rule nth_mem)
  with alphabet_upper_alnum show ?thesis
    by (simp add: list_all_iff)
qed

lemma candidate_tkt_form: "tkt_form (candidate rnd pos)"
  by (simp add: tkt_form_def candidate_def list_all_iff choice_upper_alnum)

lemma ref_exists_iff: "ref_exists ts r \<longleftrightarrow> (\<exists>t \<in> set ts. reference_number t = Some r)"
  by (simp add: ref_exists_def list_ex_iff)

lemma gen_post_now:
  "\<not> ref_exists ts (candidate rnd pos) \<Longrightarrow> gen_post ts rnd pos (candidate rnd pos, pos + 8)"
  unfolding gen_post_def by (rule exI [of _ 0]) simp

lemma gen_post_later:
  assumes taken: "ref_exists ts (candidate rnd pos)"
    and later: "gen_post ts rnd (pos + 8) y"
  shows "gen_post ts rnd pos y"
proof -
  from later obtain k where
    y: "y = (candidate rnd (pos + 8 + 8 * k), pos + 8 + 8 * k + 8)"
    and fresh: "\<not> ref_exists ts (candidate rnd (pos + 8 + 8 * k))"
    and before: "\<forall>j<k. ref_exists ts (candidate rnd (pos + 8 + 8 * j))"
    unfolding gen_post_def by blast
  have shift: "pos + 8 + 8 * j = pos + 8 * Suc j" for j
    by simp
  have "ref_exists ts (candidate rnd (pos + 8 * j))" if "j < Suc k" for j
  proof (cases j)
    case 0
    with taken show ?thesis by simp
  next
    case (Suc i)
    with that have "i < k" by simp
    with before have "ref_exists ts (candidate rnd (pos + 8 + 8 * i))" by blast
    with Suc show ?thesis by (simp only: shift)
  qed
  with y fresh show ?thesis
    unfolding gen_post_def shift by (intro exI [of _ "Suc k"]) blast
qed

lemma generate_reference_number_post:
  assumes "generate_reference_number ts rnd pos = Some y"
  shows "gen_post ts rnd pos y"
proof (rule generate_reference_number.raw_induct [where P = gen_post, OF _ assms])
  fix gen ts' rnd' pos' y'
  assume IH: "\<And>ts rnd pos y. gen ts rnd pos = Some y \<Longrightarrow> gen_post ts rnd pos y"
    and body: "(let ref = candidate rnd' pos' in
        if \<not> ref_exists ts' ref then Some (ref, pos' + 8)
        else gen ts' rnd' (pos' + 8)) = Some y'"
  show "gen_post ts' rnd' pos' y'"
  proof (cases "ref_exists ts' (candidate rnd' pos')")
    case False
    with body have "y' = (candidate rnd' pos', pos' + 8)"
      by (simp add: Let_def)
    with False show ?thesis
      by (simp add: gen_post_now)
  next
    case True
    with body have "gen ts' rnd' (pos' + 8) = Some y'"
      by (simp add: Let_def)
    then have "gen_post ts' rnd' (pos' + 8) y'"
      by (rule IH)
    with True show ?thesis
      by (rule gen_post_later)
  qed
qed

lemma Ticket_generate_reference_number_post:
  assumes "Ticket_generate_reference_number ts rnd pos = Some y"
  shows "gen_post ts rnd pos y"
proof (rule Ticket_generate_reference_number.raw_induct [where P = gen_post, OF _ assms])
  fix gen ts' rnd' pos' y'
  assume IH: "\<And>ts rnd pos y. gen ts rnd pos = Some y \<Longrightarrow> gen_post ts rnd pos y"
    and body: "(let ref = candidate rnd' pos' in
        if \<not> ref_exists ts' ref then Some (ref, pos' + 8)
        else gen ts' rnd' (pos' + 8)) = Some y'"
  show "gen_post ts' rnd' pos' y'"
  proof (cases "ref_exists ts' (candidate rnd' pos')")
    case False
    with body have "y' = (candidate rnd' pos', pos' + 8)"
      by (simp add: Let_def)
    with False show ?thesis
      by (simp add: gen_post_now)
  next
    case True
    with body have "gen ts' rnd' (pos' + 8) = Some y'"
      by (simp add: Let_def)
    then have "gen_post ts' rnd' (pos' + 8) y'"
      by (rule IH)
    with True show ?thesis
      by (rule gen_post_later)
  qed
qed

lemma generate_reference_number_live:
  "\<not> ref_exists ts (candidate rnd (pos + 8 * k)) \<Longrightarrow>
   \<forall>j<k. ref_exists ts (candidate rnd (pos + 8 * j)) \<Longrightarrow>
     generate_reference_number ts rnd pos = Some (candidate rnd (pos + 8 * k), pos + 8 * k + 8)"
proof (induction k arbitrary: pos)
  case 0
  then show ?case
    by (subst generate_reference_number.simps) simp
next
  case (Suc k)
  from Suc.prems(2) have taken: "ref_exists ts (candidate rnd pos)"
    by (metis add.right_neutral mult_zero_right zero_less_Suc)
  have shift: "pos + 8 + 8 * j = pos + 8 * Suc j" for j
    by simp
  from Suc.prems(1) have fresh: "\<not> ref_exists ts (candidate rnd (pos + 8 + 8 * k))"
    unfolding shift .
  have before: "\<forall>j<k. ref_exists ts (candidate rnd (pos + 8 + 8 * j))"
  proof (intro allI impI)
    fix j assume "j < k"
    then have "Suc j < Suc k" by simp
    with Suc.prems(2) have "ref_exists ts (candidate rnd (pos + 8 * Suc j))" by blast
    then show "ref_exists ts (candidate rnd (pos + 8 + 8 * j))" unfolding shift .
  qed
  from Suc.IH [OF fresh before]
  have "generate_reference_number ts rnd (pos + 8)
      = Some (candidate rnd (pos + 8 * Suc k), pos + 8 * Suc k + 8)"
    unfolding shift .
  with taken show ?case
    by (subst generate_reference_number.simps) simp
qed

lemma Ticket_generate_reference_number_live:
  "\<not> ref_exists ts (candidate rnd (pos + 8 * k)) \<Longrightarrow>
   \<forall>j<k. ref_exists ts (candidate rnd (pos + 8 * j)) \<Longrightarrow>
     Ticket_generate_reference_number ts rnd pos
       = Some (candidate rnd (pos + 8 * k), pos + 8 * k + 8)"
proof (induction k arbitrary: pos)
  case 0
  then show ?case
    by (subst Ticket_generate_reference_number.simps) simp
next
  case (Suc k)
  from Suc.prems(2) have taken: "ref_exists ts (candidate rnd pos)"
    by (metis add.right_neutral mult_zero_right zero_less_Suc)
  have shift: "pos + 8 + 8 * j = pos + 8 * Suc j" for j
    by simp
  from Suc.prems(1) have fresh: "\<not> ref_exists ts (candidate rnd (pos + 8 + 8 * k))"
    unfolding shift .
  have before: "\<forall>j<k. ref_exists ts (candidate rnd (pos + 8 + 8 * j))"
  proof (intro allI impI)
    fix j assume "j < k"
    then have "Suc j < Suc k" by simp
    with Suc.prems(2) have "ref_exists ts (candidate rnd (pos + 8 * Suc j))" by blast
    then show "ref_exists ts (candidate rnd (pos + 8 + 8 * j))" unfolding shift .
  qed
  from Suc.IH [OF fresh before]
  have "Ticket_generate_reference_number ts rnd (pos + 8)
      = Some (candidate rnd (pos + 8 * Suc k), pos + 8 * Suc k + 8)"
    unfolding shift .
  with taken show ?case
    by (subst Ticket_generate_reference_number.simps) simp
qed

text \<open>
  C8. A reference number returned by either generator is \<open>TKT-\<close> followed by eight
  characters, each an uppercase letter or a digit, and no stored ticket carries it: it
  is the first candidate of the random source that is not stored. And the generators
  retry until then: when the candidates of \<open>k\<close> rounds are all stored and the next one
  is not, both return that one, for every \<open>k\<close>.
\<close>

theorem generated_reference_number:
  "(generate_reference_number ts rnd pos = Some (ref, pos')
      \<or> Ticket_generate_reference_number ts rnd pos = Some (ref, pos')
    \<longrightarrow> tkt_form ref \<and> (\<forall>t \<in> set ts. reference_number t \<noteq> Some ref)
        \<and> gen_post ts rnd pos (ref, pos'))
   \<and> (\<not> ref_exists ts (candidate rnd (pos + 8 * k))
        \<and> (\<forall>j<k. ref_exists ts (candidate rnd (pos + 8 * j)))
    \<longrightarrow> generate_reference_number ts rnd pos
          = Some (candidate rnd (pos + 8 * k), pos + 8 * k + 8)
        \<and> Ticket_generate_reference_number ts rnd pos
          = Some (candidate rnd (pos + 8 * k), pos + 8 * k + 8))"
proof (intro conjI impI)
  assume "generate_reference_number ts rnd pos = Some (ref, pos')
      \<or> Ticket_generate_reference_number ts rnd pos = Some (ref, pos')"
  then show post: "gen_post ts rnd pos (ref, pos')"
    by (blast intro: generate_reference_number_post Ticket_generate_reference_number_post)
  then obtain k where ref: "ref = candidate rnd (pos + 8 * k)"
    and fresh: "\<not> ref_exists ts ref"
    unfolding gen_post_def by auto
  from ref show "tkt_form ref"
    by (simp add: candidate_tkt_form)
  from fresh show "\<forall>t \<in> set ts. reference_number t \<noteq> Some ref"
    by (simp add: ref_exists_iff)
next
  assume "\<not> ref_exists ts (candidate rnd (pos + 8 * k))
      \<and> (\<forall>j<k. ref_exists ts (candidate rnd (pos + 8 * j)))"
  then show "generate_reference_number ts rnd pos
      = Some (candidate rnd (pos + 8 * k), pos + 8 * k + 8)"
    and "Ticket_generate_reference_number ts rnd pos
      = Some (candidate rnd (pos + 8 * k), pos + 8 * k + 8)"
    by (simp_all add: generate_reference_number_live Ticket_generate_reference_number_live)
qed

theorem generated_reference_number_witness:
  "ref_exists [tk1, tk2] (candidate rnd0 0) \<and> ref_exists [tk1, tk2] (candidate rnd0 8)
   \<and> candidate rnd0 16 = ''TKT-QRSTUVWX''
   \<and> generate_reference_number [tk1, tk2] rnd0 0 = Some (''TKT-QRSTUVWX'', 24)
   \<and> Ticket_generate_reference_number [tk1, tk2] rnd0 0 = Some (''TKT-QRSTUVWX'', 24)
   \<and> tkt_form ''TKT-QRSTUVWX''
   \<and> reference_number tk1 \<noteq> Some ''TKT-QRSTUVWX''
   \<and> reference_number tk2 \<noteq> Some ''TKT-QRSTUVWX''"
proof -
  have c0: "ref_exists [tk1, tk2] (candidate rnd0 0)"
    and c1: "ref_exists [tk1, tk2] (candidate rnd0 8)"
    and c2: "\<not> ref_exists [tk1, tk2] (candidate rnd0 16)"
    and ref: "candidate rnd0 16 = ''TKT-QRSTUVWX''"
    by code_simp+
  have before: "\<forall>j<2. ref_exists [tk1, tk2] (candidate rnd0 (0 + 8 * j))"
  proof (intro allI impI)
    fix j :: nat assume "j < 2"
    then have "j = 0 \<or> j = 1" by auto
    with c0 c1 show "ref_exists [tk1, tk2] (candidate rnd0 (0 + 8 * j))" by auto
  qed
  note inst = generated_reference_number [of "[tk1, tk2]" rnd0 0 "''TKT-QRSTUVWX''" 24 2]
  from inst c2 before ref
  have run: "generate_reference_number [tk1, tk2] rnd0 0 = Some (''TKT-QRSTUVWX'', 24)"
    and run': "Ticket_generate_reference_number [tk1, tk2] rnd0 0 = Some (''TKT-QRSTUVWX'', 24)"
    by simp_all
  from inst run have form: "tkt_form ''TKT-QRSTUVWX''"
    and unused: "\<forall>t \<in> set [tk1, tk2]. reference_number t \<noteq> Some ''TKT-QRSTUVWX''"
    by blast+
  from unused have "reference_number tk1 \<noteq> Some ''TKT-QRSTUVWX''"
    "reference_number tk2 \<noteq> Some ''TKT-QRSTUVWX''"
    by simp_all
  with c0 c1 ref run run' form show ?thesis
    by blast
qed

section \<open>Properties of a purchase\<close>

lemma generate_qr_code_data_dict: "generate_qr_code_data d now (PyDict x) = Inl AttributeError"
  by (simp add: generate_qr_code_data_def)

lemma create_outcomes:
  "create d uid event_id qty now rnd pos = None
   \<or> (\<exists>err. create d uid event_id qty now rnd pos = Some (Inl err, d))"
  by (simp add: create_def generate_qr_code_data_dict Let_def
      split: sum.splits option.splits prod.splits)

lemma create_never_returns_ticket:
  "create d uid event_id qty now rnd pos \<noteq> Some (Inr t, d')"
  using create_outcomes [of d uid event_id qty now rnd pos] by auto

lemma create_keeps_state:
  "create d uid event_id qty now rnd pos = Some (res, d') \<Longrightarrow> d' = d"
  using create_outcomes [of d uid event_id qty now rnd pos] by auto

lemma create_insufficient:
  assumes "1 \<le> qty" and "qty \<le> 10" and "Event_get d event_id = Some ev"
    and "is_active ev" and "available_seats ev < qty"
  shows "create d uid event_id qty now rnd pos
       = Some (Inl (ValidationError (OnlySeatsAvailable (available_seats ev))), d)"
  using assms by (simp add: create_def is_valid_def TicketPurchaseSerializer_validate_def)

lemma create_valid_request:
  assumes "1 \<le> qty" and "qty \<le> 10" and "Event_get d event_id = Some ev"
    and "is_active ev" and "qty \<le> available_seats ev"
    and "create d uid event_id qty now rnd pos = Some (res, d')"
  shows "res = Inl AttributeError \<and> d' = d"
  using assms
  by (auto simp: create_def is_valid_def TicketPurchaseSerializer_validate_def
      generate_qr_code_data_dict Let_def split: option.splits prod.splits)

text \<open>
  C7. A purchase whose quantity is below 1 or above 10, whose event does not exist, or
  whose event is not active, is answered with a validation error of the serializer, and
  the database is the one before the request: no seat is taken and no ticket is stored.
\<close>

theorem create_rejects_before_mutation:
  assumes "qty < 1 \<or> 10 < qty \<or> Event_get d event_id = None
         \<or> (\<exists>ev. Event_get d event_id = Some ev \<and> \<not> is_active ev)"
  shows "create d uid event_id qty now rnd pos = Some (Inl (ValidationError QuantityOutOfRange), d)
       \<or> create d uid event_id qty now rnd pos = Some (Inl (ValidationError EventNotFound), d)
       \<or> create d uid event_id qty now rnd pos = Some (Inl (ValidationError EventNotActive), d)"
  using assms
  by (auto simp: create_def is_valid_def TicketPurchaseSerializer_validate_def)

theorem create_rejects_before_mutation_witness:
  "create db_sale 7 1 11 100 rnd0 0 = Some (Inl (ValidationError QuantityOutOfRange), db_sale)
   \<and> create db_sale 7 1 0 100 rnd0 0 = Some (Inl (ValidationError QuantityOutOfRange), db_sale)
   \<and> create db_sale 7 2 3 100 rnd0 0 = Some (Inl (ValidationError EventNotFound), db_sale)
   \<and> create db_closed 7 1 3 100 rnd0 0 = Some (Inl (ValidationError EventNotActive), db_closed)"
proof -
  have eval: "Event_get db_sale 2 = None"
    "Event_get db_closed 1 = Some (ev10\<lparr>is_active := False\<rparr>)"
    "\<not> is_active (ev10\<lparr>is_active := False\<rparr>)"
    by code_simp+
  have distinct: "create db_sale 7 1 11 100 rnd0 0 \<noteq> Some (Inl (ValidationError EventNotFound), db_sale)"
    "create db_sale 7 1 11 100 rnd0 0 \<noteq> Some (Inl (ValidationError EventNotActive), db_sale)"
    "create db_sale 7 1 0 100 rnd0 0 \<noteq> Some (Inl (ValidationError EventNotFound), db_sale)"
    "create db_sale 7 1 0 100 rnd0 0 \<noteq> Some (Inl (ValidationError EventNotActive), db_sale)"
    "create db_sale 7 2 3 100 rnd0 0 \<noteq> Some (Inl (ValidationError QuantityOutOfRange), db_sale)"
    "create db_sale 7 2 3 100 rnd0 0 \<noteq> Some (Inl (ValidationError EventNotActive), db_sale)"
    "create db_closed 7 1 3 100 rnd0 0 \<noteq> Some (Inl (ValidationError QuantityOutOfRange), db_closed)"
    "create db_closed 7 1 3 100 rnd0 0 \<noteq> Some (Inl (ValidationError EventNotFound), db_closed)"
    by code_simp+
  from create_rejects_before_mutation [of 11 db_sale 1 7 100 rnd0 0]
    create_rejects_before_mutation [of 0 db_sale 1 7 100 rnd0 0]
    create_rejects_before_mutation [of 3 db_sale 2 7 100 rnd0 0]
    create_rejects_before_mutation [of 3 db_closed 1 7 100 rnd0 0]
    eval distinct
  show ?thesis
    by simp
qed

text \<open>
  C1. The claim is that a purchase of \<open>q\<close> seats from an active event with at least \<open>q\<close>
  seats succeeds and leaves \<open>q\<close> seats fewer. The view does not get there. For the event
  with ten seats and a purchase of three by user 7, the request is valid; inside the
  transaction \<open>generate_qr_code_data\<close> is then called on a dictionary, \<open>ticket.id\<close>
  raises AttributeError, and the transaction is rolled back: the answer is the error, no
  ticket is stored and the event keeps its ten seats. (\<open>create_valid_request\<close> shows the
  same for every valid request, \<open>create_insufficient\<close> the rejection when seats are short.)
\<close>

theorem purchase_raises_AttributeError:
  "is_valid db_sale 1 3 = Inr ev10
   \<and> create db_sale 7 1 3 100 rnd0 0 = Some (Inl AttributeError, db_sale)"
  by code_simp

text \<open>
  C5. The claim is that of two purchases which together ask for more seats than there
  are, exactly one succeeds. Two purchases of eight seats each against the ten seats,
  one request after the other: both end in the AttributeError, neither succeeds, and
  the event keeps its ten seats.
\<close>

theorem two_purchases_both_fail:
  "create db_sale 7 1 8 100 rnd0 0 = Some (Inl AttributeError, db_sale)
   \<and> create db_sale 8 1 8 200 rnd0 16 = Some (Inl AttributeError, db_sale)"
  by code_simp

section \<open>Rows that are saved are found again\<close>

lemma find_Some_list_ex: "find P xs = Some x \<Longrightarrow> list_ex P xs"
  by (auto simp: find_Some_iff list_ex_iff)

lemma find_replaced_event:
  "find (\<lambda>r. eid r = k) rows = Some e \<Longrightarrow> eid e' = k \<Longrightarrow>
     find (\<lambda>r. eid r = k) (map (\<lambda>r. if eid r = k then e' else r) rows) = Some e'"
  by (induction rows) (auto split: if_splits)

lemma Event_get_eid: "Event_get d k = Some e \<Longrightarrow> eid e = k"
  by (auto simp: Event_get_def find_Some_iff)

lemma Event_get_Event_save:
  assumes "Event_get d k = Some e" and "eid e' = k" and "k \<noteq> 0"
  shows "Event_get (Event_save d e') k = Some e'"
  using assms
  by (simp add: Event_get_def Event_save_def upsert_event_def find_Some_list_ex
      find_replaced_event)

lemma tickets_Event_save: "tickets (Event_save d e) = tickets d"
  by (simp add: Event_save_def Let_def)

lemma ticket_event_key: "ticket_event d t = Some ev \<Longrightarrow> Event_get d (eid ev) = Some ev"
  by (auto simp: ticket_event_def dest: Event_get_eid split: option.splits)

lemma ticket_event_Event_save:
  assumes "ticket_event d t = Some ev" and "eid ev \<noteq> 0" and "eid ev' = eid ev"
    and "event t0 = event t"
  shows "ticket_event (Event_save d ev') t0 = Some ev'"
proof -
  from assms(1) obtain k where k: "event t = Some k" and row: "Event_get d k = Some ev"
    by (auto simp: ticket_event_def split: option.splits)
  from row have "eid ev = k"
    by (rule Event_get_eid)
  with row assms(2,3) have "Event_get (Event_save d ev') k = Some ev'"
    by (intro Event_get_Event_save) simp_all
  with k assms(4) show ?thesis
    by (simp add: ticket_event_def)
qed

lemma get_object_fields: "get_object d uid pk = Some t \<Longrightarrow> tid t = pk \<and> user t = Some uid"
  by (auto simp: get_object_def get_queryset_def find_Some_iff dest: nth_mem)

lemma find_filter_replaced_ticket:
  "find (\<lambda>r. tid r = k) (filter (\<lambda>r. user r = Some u) rows) = Some t \<Longrightarrow>
   tid t' = k \<Longrightarrow> user t' = Some u \<Longrightarrow>
     find (\<lambda>r. tid r = k)
       (filter (\<lambda>r. user r = Some u) (map (\<lambda>r. if tid r = k then t' else r) rows)) = Some t'"
  by (induction rows) (auto split: if_splits)

lemma find_filter_list_ex:
  "find P (filter Q rows) = Some t \<Longrightarrow> list_ex P rows"
  by (induction rows) (auto split: if_splits)

lemma get_object_upsert:
  assumes "get_object d uid pk = Some t" and "tid t' = pk" and "user t' = Some uid"
  shows "get_object (d'\<lparr>tickets := upsert_ticket t' (tickets d)\<rparr>) uid pk = Some t'"
  using assms
  by (simp add: get_object_def get_queryset_def upsert_ticket_def find_filter_list_ex
      find_filter_replaced_ticket)

section \<open>What Ticket.save changes\<close>

lemma save_fields_kept:
  "tid (save_fields d a now t) = tid t"
  "user (save_fields d a now t) = user t"
  "status (save_fields d a now t) = status t"
  "quantity (save_fields d a now t) = quantity t"
  by (simp_all add: save_fields_def mark_cancelled_def fill_qr_def fill_price_def
      split: option.splits)

lemma save_fields_price:
  "t_price t \<noteq> 0 \<Longrightarrow> t_price (save_fields d a now t) = t_price t"
  by (simp add: save_fields_def mark_cancelled_def fill_qr_def fill_price_def
      split: option.splits)

lemma save_fields_price_free:
  assumes "ticket_event d t = Some e" and "e_price e = t_price t"
  shows "t_price (save_fields d a now t) = t_price t"
  using assms
  by (simp add: save_fields_def mark_cancelled_def fill_qr_def fill_price_def)

lemma save_fields_first_cancel:
  assumes "status t = Cancelled" and "cancelled_date t = None"
  shows "cancelled_date (save_fields d a now t) = Some now
       \<and> refund_amount (save_fields d a now t)
           = t_price (save_fields d a now t) * quantity t"
  using assms
  by (simp add: save_fields_def mark_cancelled_def fill_qr_def fill_price_def total_price_def
      split: option.splits)

lemma Ticket_save_stored:
  assumes "Ticket_save d False now rnd pos t = Some ((t', d'), p)"
  shows "\<exists>r. t' = save_fields d False now (t\<lparr>reference_number := r\<rparr>)
           \<and> d' = d\<lparr>tickets := upsert_ticket t' (tickets d)\<rparr>"
proof (cases "falsy_ref (reference_number t)")
  case False
  with assms have "t' = save_fields d False now (t\<lparr>reference_number := reference_number t\<rparr>)
      \<and> d' = d\<lparr>tickets := upsert_ticket t' (tickets d)\<rparr>"
    by (auto simp: Ticket_save_def store_ticket_def)
  then show ?thesis ..
next
  case True
  with assms obtain r where
    "t' = save_fields d False now (t\<lparr>reference_number := Some r\<rparr>)
      \<and> d' = d\<lparr>tickets := upsert_ticket t' (tickets d)\<rparr>"
    by (auto simp: Ticket_save_def store_ticket_def split: option.splits)
  then show ?thesis ..
qed

section \<open>Cancellation through the view\<close>

lemma cancel_proceeds:
  assumes "get_object d uid pk = Some t" and "status t \<noteq> Cancelled"
    and "ticket_event d t = Some ev" and "\<not> too_late ev now"
  shows "cancel d uid pk now rnd pos =
     (case Ticket_save (Event_save d (ev\<lparr>available_seats := available_seats ev + quantity t\<rparr>))
             False now rnd pos (t\<lparr>status := Cancelled\<rparr>) of
        None \<Rightarrow> None
      | Some ((t', d2), _) \<Rightarrow> Some (Inr (t_price t' * quantity t'), d2))"
  using assms by (simp add: cancel_def Let_def)

lemma cancel_cancelled:
  assumes "get_object d uid pk = Some t" and "status t = Cancelled"
  shows "cancel d uid pk now rnd pos = Some (Inl (BadRequest TicketAlreadyCancelled), d)"
  using assms by (simp add: cancel_def)

lemma cancel_success_not_late:
  assumes "cancel d uid pk now rnd pos = Some (Inr refund, d')"
    and "get_object d uid pk = Some t" and "ticket_event d t = Some ev"
  shows "status t \<noteq> Cancelled \<and> \<not> too_late ev now"
  using assms by (auto simp: cancel_def split: if_splits)

text \<open>The state a cancellation that went through the checks leaves behind.\<close>

lemma cancel_result:
  assumes run: "cancel d uid pk now rnd pos = Some (res, d')"
    and obj: "get_object d uid pk = Some t" and st: "status t \<noteq> Cancelled"
    and ev: "ticket_event d t = Some ev" and pk: "eid ev \<noteq> 0" and win: "\<not> too_late ev now"
  shows "\<exists>r t'. t' = save_fields (Event_save d (ev\<lparr>available_seats := available_seats ev + quantity t\<rparr>))
                     False now (t\<lparr>status := Cancelled, reference_number := r\<rparr>)
           \<and> res = Inr (t_price t' * quantity t')
           \<and> get_object d' uid pk = Some t'
           \<and> Event_get d' (eid ev) = Some (ev\<lparr>available_seats := available_seats ev + quantity t\<rparr>)"
proof -
  let ?ev' = "ev\<lparr>available_seats := available_seats ev + quantity t\<rparr>"
  let ?d1 = "Event_save d ?ev'"
  from run cancel_proceeds [OF obj st ev win]
  obtain t' d2 p where
    saved: "Ticket_save ?d1 False now rnd pos (t\<lparr>status := Cancelled\<rparr>) = Some ((t', d2), p)"
    and res: "res = Inr (t_price t' * quantity t')" and d': "d' = d2"
    by (auto split: option.splits)
  from Ticket_save_stored [OF saved] obtain r where
    t': "t' = save_fields ?d1 False now (t\<lparr>status := Cancelled, reference_number := r\<rparr>)"
    and d2: "d2 = ?d1\<lparr>tickets := upsert_ticket t' (tickets ?d1)\<rparr>"
    by auto
  from obj have "tid t = pk" "user t = Some uid"
    by (simp_all add: get_object_fields)
  with t' have keys: "tid t' = pk" "user t' = Some uid"
    by (simp_all add: save_fields_kept)
  from obj have "get_object (?d1\<lparr>tickets := upsert_ticket t' (tickets d)\<rparr>) uid pk = Some t'"
    using keys by (rule get_object_upsert)
  with d' d2 have found: "get_object d' uid pk = Some t'"
    by (simp add: tickets_Event_save)
  from ev have "Event_get d (eid ev) = Some ev"
    by (rule ticket_event_key)
  then have "Event_get ?d1 (eid ev) = Some ?ev'"
    using pk by (intro Event_get_Event_save) simp_all
  with d' d2 have seats: "Event_get d' (eid ev) = Some ?ev'"
    by (simp add: Event_get_def)
  from t' res found seats show ?thesis
    by blast
qed

text \<open>The view never refuses what the model's test allows.\<close>

lemma can_be_cancelled_not_too_late:
  assumes ok: "can_be_cancelled d t now" and ev: "ticket_event d t = Some ev"
    and tod: "time ev < usec_per_day"
  shows "\<not> too_late ev now"
proof (cases "date ev")
  case None
  then show ?thesis by (simp add: too_late_def)
next
  case (Some dt)
  with ok ev have far: "usec_per_day < combine dt (time ev) - now"
    by (simp add: can_be_cancelled_def usec_per_day_def split: if_splits)
  have "usec_per_day * (now div usec_per_day) \<le> now"
    by (simp add: usec_per_day_def)
  with far tod have "usec_per_day * (now div usec_per_day) < usec_per_day * dt"
    by (simp add: combine_def algebra_simps)
  then have "now div usec_per_day < dt"
    by (simp add: usec_per_day_def)
  with Some show ?thesis
    by (simp add: too_late_def date_of_def)
qed

text \<open>
  C2. The claim is that a confirmed ticket can be cancelled exactly when the event is
  more than 24 hours away, and that 23 hours before the event the request fails. The
  view compares dates only. On day 9 at 12:00, 23 hours before the event of day 10 at
  11:00, the request succeeds: the seats go back and 60.00 is refunded, although
  \<open>Ticket.can_be_cancelled\<close> is false and \<open>Ticket.cancel\<close> refuses.
\<close>

theorem cancel_23_hours_before:
  "status tk1 = Confirmed
   \<and> combine 10 39600000000 - noon_day9 = 23 * 3600000000
   \<and> cancel db_sold 7 1 noon_day9 rnd0 0 = Some (Inr 6000, db_refunded noon_day9)
   \<and> \<not> can_be_cancelled db_sold tk1 noon_day9
   \<and> Ticket_cancel db_sold tk1 None noon_day9 rnd0 0 = Some (False, db_sold)"
  by code_simp

text \<open>
  C4. The claim is that cancelling a ticket that is not confirmed fails and changes
  nothing. The view refuses a cancelled ticket only: the pending ticket is cancelled,
  its three seats are added to the event and a refund is answered, although
  \<open>Ticket.can_be_cancelled\<close> is false and \<open>Ticket.cancel\<close> refuses.
\<close>

theorem cancel_pending_ticket:
  "get_object db_pending 7 1 = Some (tk1\<lparr>status := Pending\<rparr>)
   \<and> cancel db_pending 7 1 100 rnd0 0 = Some (Inr 6000, db_refunded 100)
   \<and> \<not> can_be_cancelled db_pending (tk1\<lparr>status := Pending\<rparr>) 100
   \<and> Ticket_cancel db_pending (tk1\<lparr>status := Pending\<rparr>) None 100 rnd0 0 = Some (False, db_pending)"
  by code_simp

text \<open>
  A cancel request that succeeds on a confirmed ticket that was never cancelled before
  and whose price \<open>Ticket.save\<close> does not replace does what is expected of it; the
  event is stored under a key other than 0.
\<close>

lemma cancel_first_time:
  assumes run: "cancel d uid pk now rnd pos = Some (Inr refund, d')"
    and obj: "get_object d uid pk = Some t" and st: "status t = Confirmed"
    and first: "cancelled_date t = None"
    and ev: "ticket_event d t = Some ev" and key: "eid ev \<noteq> 0"
    and price: "t_price t \<noteq> 0 \<or> e_price ev = 0"
  shows "Event_get d' (eid ev) = Some (ev\<lparr>available_seats := available_seats ev + quantity t\<rparr>)
       \<and> (\<exists>t'. get_object d' uid pk = Some t' \<and> status t' = Cancelled
               \<and> cancelled_date t' = Some now \<and> refund_amount t' = t_price t * quantity t)
       \<and> refund = t_price t * quantity t
       \<and> cancel d' uid pk now' rnd' pos' = Some (Inl (BadRequest TicketAlreadyCancelled), d')"
proof -
  let ?ev' = "ev\<lparr>available_seats := available_seats ev + quantity t\<rparr>"
  let ?d1 = "Event_save d ?ev'"
  from st have st': "status t \<noteq> Cancelled"
    by simp
  from cancel_success_not_late [OF run obj ev] have win: "\<not> too_late ev now"
    by simp
  from cancel_result [OF run obj st' ev key win] obtain r t' where
    t': "t' = save_fields ?d1 False now (t\<lparr>status := Cancelled, reference_number := r\<rparr>)"
    and res: "Inr refund = (Inr (t_price t' * quantity t') :: error + int)"
    and found: "get_object d' uid pk = Some t'"
    and seats: "Event_get d' (eid ev) = Some ?ev'"
    by blast
  let ?t0 = "t\<lparr>status := Cancelled, reference_number := r\<rparr>"
  have t0: "status ?t0 = Cancelled" "cancelled_date ?t0 = None"
    using first by simp_all
  from t' have cancelled: "status t' = Cancelled" and qty: "quantity t' = quantity t"
    by (simp_all add: save_fields_kept)
  have same_price: "t_price t' = t_price t"
  proof (cases "t_price t = 0")
    case False
    with t' show ?thesis
      by (simp add: save_fields_price)
  next
    case True
    with price have free: "e_price ?ev' = t_price ?t0"
      by simp
    from ev key have "ticket_event ?d1 ?t0 = Some ?ev'"
      by (rule ticket_event_Event_save) simp_all
    from save_fields_price_free [OF this free] t' show ?thesis
      by simp
  qed
  from t' save_fields_first_cancel [OF t0] same_price have
    dated: "cancelled_date t' = Some now" and refunded: "refund_amount t' = t_price t * quantity t"
    by simp_all
  from res same_price qty have amount: "refund = t_price t * quantity t"
    by simp
  from found cancelled
  have again: "cancel d' uid pk now' rnd' pos' = Some (Inl (BadRequest TicketAlreadyCancelled), d')"
    by (rule cancel_cancelled)
  from seats found cancelled dated refunded amount again show ?thesis
    by blast
qed

text \<open>
  C3. The claim is that a successful cancellation of a confirmed ticket sets
  \<open>cancelled_date\<close> to the current time and \<open>refund_amount\<close> to price times quantity.
  The view leaves both to \<open>Ticket.save\<close>, which sets them only while \<open>cancelled_date\<close> is
  unset and after it has replaced a price of 0 by the event's price. The ticket that
  was cancelled at time 5 and confirmed again is cancelled at time 100 and keeps
  \<open>cancelled_date = 5\<close>, where \<open>Ticket.cancel\<close> stores 100. The ticket of unit price 0,
  three seats of an event that costs 20.00 by now, is refunded 60.00 and stored with
  unit price 20.00, where \<open>Ticket.cancel\<close> stores the refund 0.
\<close>

theorem cancel_keeps_old_date:
  "get_object db_reconfirmed 7 1 = Some (tk1\<lparr>cancelled_date := Some 5, refund_amount := 6000\<rparr>)
   \<and> status (tk1\<lparr>cancelled_date := Some 5, refund_amount := 6000\<rparr>) = Confirmed
   \<and> cancel db_reconfirmed 7 1 100 rnd0 0 = Some (Inr 6000, db_recancelled)
   \<and> map cancelled_date (tickets db_recancelled) = [Some 5]
   \<and> Ticket_cancel db_reconfirmed (tk1\<lparr>cancelled_date := Some 5, refund_amount := 6000\<rparr>)
         None 100 rnd0 0 = Some (True, db_restamped)
   \<and> map cancelled_date (tickets db_restamped) = [Some 100]
   \<and> get_object db_free 7 1 = Some (tk1\<lparr>t_price := 0\<rparr>)
   \<and> t_price (tk1\<lparr>t_price := 0\<rparr>) * quantity (tk1\<lparr>t_price := 0\<rparr>) = 0
   \<and> cancel db_free 7 1 100 rnd0 0 = Some (Inr 6000, db_refunded 100)
   \<and> map refund_amount (tickets (db_refunded 100)) = [6000]
   \<and> map t_price (tickets (db_refunded 100)) = [2000]
   \<and> Ticket_cancel db_free (tk1\<lparr>t_price := 0\<rparr>) None 100 rnd0 0 = Some (True, db_free_cancelled)
   \<and> map refund_amount (tickets db_free_cancelled) = [0]"
  by code_simp

section \<open>Properties of the statistics\<close>

lemma length_filter_count_where: "length (filter P xs) = count_where P xs"
  by (induction xs) simp_all

lemma sum_list_filter_sum_where: "sum_list (map f (filter P xs)) = sum_where P f xs"
  by (induction xs) simp_all

lemma count_where_filter:
  "count_where P (filter Q xs) = count_where (\<lambda>x. Q x \<and> P x) xs"
  by (induction xs) simp_all

lemma sum_where_filter:
  "sum_where P f (filter Q xs) = sum_where (\<lambda>x. Q x \<and> P x) f xs"
  by (induction xs) simp_all

lemma event_date_gte_event_day:
  "event_date_gte d today t = on_or_after today (event_day d t)"
  by (simp add: event_date_gte_def on_or_after_def event_day_def ticket_event_def
      split: option.splits)

subsection \<open>The float is the nearest double\<close>

lemma round_half_even_nearest:
  assumes "0 < d"
  shows "2 * \<bar>n - d * round_half_even n d\<bar> \<le> d"
proof -
  define q r where "q = n div d" and "r = n mod d"
  have n: "n = d * q + r"
    by (simp add: q_def r_def)
  from assms have r: "0 \<le> r" "r < d"
    by (simp_all add: r_def)
  have "round_half_even n d =
      (if 2 * r < d then q else if d < 2 * r then q + 1 else if even q then q else q + 1)"
    by (simp add: round_half_even_def Let_def q_def r_def)
  then show ?thesis
    using r by (auto simp: n algebra_simps)
qed

lemma round_half_even_real:
  assumes "0 < d"
  shows "\<bar>real_of_int n / real_of_int d - real_of_int (round_half_even n d)\<bar> \<le> 1 / 2"
proof -
  let ?m = "round_half_even n d"
  from assms have d: "0 < real_of_int d"
    by simp
  have "real_of_int (2 * \<bar>n - d * ?m\<bar>) \<le> real_of_int d"
    using round_half_even_nearest [OF assms, of n] by (simp only: of_int_le_iff)
  then have "2 * \<bar>real_of_int n - real_of_int d * real_of_int ?m\<bar> \<le> real_of_int d"
    by simp
  moreover have "real_of_int n / real_of_int d - real_of_int ?m
      = (real_of_int n - real_of_int d * real_of_int ?m) / real_of_int d"
    using d by (simp add: field_simps)
  ultimately show ?thesis
    using d by (simp add: abs_divide field_simps)
qed

lemma bits_Suc:
  "0 < a \<Longrightarrow> \<exists>k. bits a = int (Suc k) \<and> 2 ^ k \<le> a \<and> a < 2 ^ Suc k"
proof (induction a rule: bits.induct)
  case (1 n)
  from "1.prems" have b: "bits n = 1 + bits (n div 2)"
    by (subst bits.simps) simp
  show ?case
  proof (cases "n div 2 = 0")
    case True
    with "1.prems" have "n = 1"
      by presburger
    moreover have "bits 0 = 0"
      by (subst bits.simps) simp
    ultimately have "bits n = int (Suc 0) \<and> 2 ^ 0 \<le> n \<and> n < 2 ^ Suc 0"
      using b by simp
    then show ?thesis ..
  next
    case False
    with "1.prems" have h: "0 < n div 2"
      by presburger
    from "1.prems" have "\<not> n \<le> 0"
      by simp
    from "1.IH" [OF this h] obtain k where
      k: "bits (n div 2) = int (Suc k)" and lo: "2 ^ k \<le> n div 2" and hi: "n div 2 < 2 ^ Suc k"
      by blast
    have "2 * (n div 2) \<le> n" "n \<le> 2 * (n div 2) + 1"
      by presburger+
    with lo hi have "2 ^ Suc k \<le> n" "n < 2 ^ Suc (Suc k)"
      by simp_all
    moreover from b k have "bits n = int (Suc (Suc k))"
      by simp
    ultimately show ?thesis
      by blast
  qed
qed

lemma float_exponent:
  fixes a b l :: int
  assumes a: "0 < a"
  defines "b \<equiv> bits a"
  defines "l \<equiv> (if (if 7 \<le> b then 100 * 2 ^ nat (b - 7) \<le> a else 100 \<le> a * 2 ^ nat (7 - b))
                  then b - 7 else b - 8)"
  shows "100 * 2 powi l \<le> real_of_int a \<and> real_of_int a < 100 * 2 powi (l + 1)"
proof -
  from bits_Suc [OF a] obtain k where
    k: "b = int (Suc k)" and lo: "2 ^ k \<le> a" and hi: "a < 2 ^ Suc k"
    unfolding b_def by blast
  define p :: real where "p = 2 powi (b - 8)"
  have p: "0 < p"
    by (simp add: p_def)
  have steps: "2 powi (b - 7) = 2 * p" "2 powi (b - 6) = 4 * p"
    "2 powi (b - 1) = 128 * p" "2 powi b = 256 * p"
    using power_int_add [of "2::real" "b - 8" 1] power_int_add [of "2::real" "b - 8" 2]
      power_int_add [of "2::real" "b - 8" 7] power_int_add [of "2::real" "b - 8" 8]
    by (simp_all add: p_def)
  from lo have "real_of_int (2 ^ k) \<le> real_of_int a"
    by (simp only: of_int_le_iff)
  moreover have "2 powi (b - 1) = (2::real) ^ k"
    by (simp add: k)
  ultimately have lo': "128 * p \<le> real_of_int a"
    by (simp add: steps)
  from hi have "real_of_int a < real_of_int (2 ^ Suc k)"
    by (simp only: of_int_less_iff)
  moreover have "2 powi b = (2::real) ^ Suc k"
    unfolding k by (rule power_int_of_nat)
  ultimately have hi': "real_of_int a < 256 * p"
    by (simp add: steps)
  have test: "(if 7 \<le> b then 100 * 2 ^ nat (b - 7) \<le> a else 100 \<le> a * 2 ^ nat (7 - b))
      \<longleftrightarrow> 100 * (2 * p) \<le> real_of_int a"
  proof (cases "7 \<le> b")
    case True
    then have "2 powi (b - 7) = (2::real) ^ nat (b - 7)"
      by (simp add: power_int_def)
    then have "100 * (2 * p) = real_of_int (100 * 2 ^ nat (b - 7))"
      by (simp add: steps [symmetric])
    then have "100 * (2 * p) \<le> real_of_int a \<longleftrightarrow> 100 * 2 ^ nat (b - 7) \<le> a"
      by (simp only: of_int_le_iff)
    with True show ?thesis
      by simp
  next
    case False
    then have inv: "2 powi (b - 7) = inverse ((2::real) ^ nat (7 - b))"
      by (simp add: power_int_def power_divide inverse_eq_divide)
    have "real_of_int 100 \<le> real_of_int (a * 2 ^ nat (7 - b)) \<longleftrightarrow> 100 \<le> a * 2 ^ nat (7 - b)"
      by (simp only: of_int_le_iff)
    moreover have "real_of_int 100 \<le> real_of_int (a * 2 ^ nat (7 - b))
        \<longleftrightarrow> 100 * (2 * p) \<le> real_of_int a"
      unfolding steps [symmetric] inv by (simp add: field_simps)
    ultimately show ?thesis
      using False by simp
  qed
  show ?thesis
  proof (cases "100 * (2 * p) \<le> real_of_int a")
    case True
    with test have "l = b - 7"
      by (simp add: l_def)
    with True hi' p show ?thesis
      by (simp add: steps)
  next
    case False
    with test have "l = b - 8"
      by (simp add: l_def)
    with False lo' p show ?thesis
      by (simp add: steps p_def [symmetric])
  qed
qed

text \<open>
  The float of a Decimal is a double in normal form that lies within half a unit in the
  last place of the Decimal: it is the nearest double.
\<close>

lemma float_of_cents_nearest:
  assumes res: "float_of_cents c = Float m e" and c: "c \<noteq> 0"
  shows "2 ^ 52 \<le> \<bar>m\<bar> \<and> \<bar>m\<bar> < 2 ^ 53 \<and> e \<le> 971
       \<and> \<bar>real_of_int c / 100 - real_of_int m * 2 powi e\<bar> \<le> 2 powi e / 2"
proof -
  define a where "a = \<bar>c\<bar>"
  define b where "b = bits a"
  define l where "l = (if (if 7 \<le> b then 100 * 2 ^ nat (b - 7) \<le> a else 100 \<le> a * 2 ^ nat (7 - b))
      then b - 7 else b - 8)"
  define e0 where "e0 = l - 52"
  define m0 where "m0 = (if 0 \<le> e0 then round_half_even a (100 * 2 ^ nat e0)
      else round_half_even (a * 2 ^ nat (- e0)) 100)"
  define m1 :: int where "m1 = (if m0 = 2 ^ 53 then 2 ^ 52 else m0)"
  define e1 where "e1 = (if m0 = 2 ^ 53 then e0 + 1 else e0)"
  have "float_of_cents c =
      (if 971 < e1 then (if c < 0 then NegInf else PosInf)
       else Float (if c < 0 then - m1 else m1) e1)"
    using c unfolding float_of_cents_def Let_def a_def b_def l_def e0_def m0_def m1_def e1_def
    by simp
  with res have e1: "e1 \<le> 971" and m: "m = (if c < 0 then - m1 else m1)" and e: "e = e1"
    by (auto split: if_splits)
  from c have a: "0 < a"
    by (simp add: a_def)
  from float_exponent [OF a]
  have l: "100 * 2 powi l \<le> real_of_int a" "real_of_int a < 100 * 2 powi (l + 1)"
    unfolding l_def b_def by blast+
  define s :: real where "s = 2 powi e0"
  have s: "0 < s"
    by (simp add: s_def)
  have scale: "2 powi l = s * 2 ^ 52" "2 powi (l + 1) = s * 2 ^ 53"
    using power_int_add [of "2::real" "l - 52" 52] power_int_add [of "2::real" "l - 52" 53]
    by (simp_all add: s_def e0_def add.commute)
  define y where "y = real_of_int a / (100 * s)"
  from l s have y: "2 ^ 52 \<le> y" "y < 2 ^ 53"
    unfolding scale y_def by (simp_all add: field_simps)
  have near: "\<bar>y - real_of_int m0\<bar> \<le> 1 / 2"
  proof (cases "0 \<le> e0")
    case True
    then have "s = 2 ^ nat e0"
      by (simp add: s_def power_int_def)
    then have "y = real_of_int a / real_of_int (100 * 2 ^ nat e0)"
      by (simp add: y_def)
    moreover from True have "m0 = round_half_even a (100 * 2 ^ nat e0)"
      by (simp add: m0_def)
    moreover have "(0::int) < 100 * 2 ^ nat e0"
      by simp
    ultimately show ?thesis
      using round_half_even_real [of "100 * 2 ^ nat e0" a] by simp
  next
    case False
    then have "s = inverse (2 ^ nat (- e0))"
      by (simp add: s_def power_int_def power_divide inverse_eq_divide)
    then have "y = real_of_int a / (100 * inverse (2 ^ nat (- e0)))"
      by (simp only: y_def)
    then have yq: "y = real_of_int (a * 2 ^ nat (- e0)) / real_of_int 100"
      by (simp add: inverse_eq_divide)
    from False have mq: "m0 = round_half_even (a * 2 ^ nat (- e0)) 100"
      by (simp add: m0_def)
    have "\<bar>real_of_int (a * 2 ^ nat (- e0)) / real_of_int 100
        - real_of_int (round_half_even (a * 2 ^ nat (- e0)) 100)\<bar> \<le> 1 / 2"
      by (rule round_half_even_real) simp
    then show ?thesis
      by (simp only: yq mq)
  qed
  from y have y': "4503599627370496 \<le> y" "y < 9007199254740992"
    by simp_all
  from near y' have "4503599627370495 < real_of_int m0" "real_of_int m0 < 9007199254740993"
    by linarith+
  then have "4503599627370495 < m0" "m0 < 9007199254740993"
    by simp_all
  then have m0: "2 ^ 52 \<le> m0" "m0 \<le> 2 ^ 53"
    by simp_all
  from m0 have m1: "2 ^ 52 \<le> m1" "m1 < 2 ^ 53"
    by (simp_all add: m1_def)
  have "2 powi (e0 + 1) = s * 2"
    unfolding s_def by (simp add: power_int_add)
  then have same: "real_of_int m1 * 2 powi e1 = real_of_int m0 * s"
    and wider: "s \<le> 2 powi e1"
    using s by (simp_all add: m1_def e1_def s_def)
  have "real_of_int a / 100 - real_of_int m0 * s = (y - real_of_int m0) * s"
    using s by (simp add: y_def field_simps)
  then have "\<bar>real_of_int a / 100 - real_of_int m0 * s\<bar> = \<bar>y - real_of_int m0\<bar> * s"
    using s by (simp add: abs_mult)
  also have "\<dots> \<le> 1 / 2 * s"
    using near s by (intro mult_right_mono) simp_all
  also have "\<dots> \<le> 2 powi e1 / 2"
    using wider by simp
  finally have err: "\<bar>real_of_int a / 100 - real_of_int m1 * 2 powi e1\<bar> \<le> 2 powi e1 / 2"
    by (simp only: same)
  show ?thesis
  proof (cases "c < 0")
    case True
    then have "real_of_int c / 100 - real_of_int m * 2 powi e
        = - (real_of_int a / 100 - real_of_int m1 * 2 powi e1)"
      by (simp add: m e a_def)
    with err m1 e1 True show ?thesis
      by (simp add: m e abs_minus_commute)
  next
    case False
    then have "real_of_int c / 100 - real_of_int m * 2 powi e
        = real_of_int a / 100 - real_of_int m1 * 2 powi e1"
      by (simp add: m e a_def)
    with err m1 e1 False show ?thesis
      by (simp add: m e)
  qed
qed

text \<open>Some doubles, as Python prints their mantissa and exponent.\<close>

lemma float_of_cents_samples:
  "float_of_cents 0 = Float 0 0"
  "float_of_cents 1 = Float 5764607523034235 (- 59)"
  "float_of_cents 10 = Float 7205759403792794 (- 56)"
  "float_of_cents 6000 = Float 8444249301319680 (- 47)"
  "float_of_cents (- 6010) = Float (- 8458323050155213) (- 47)"
  "float_of_cents 900719925474099250 = Float 4503599627370496 1"
  "float_of_cents 900719925474099350 = Float 4503599627370497 1"
  by code_simp+

text \<open>
  C9, as the claim states it, fails in two places. The view counts a confirmed ticket
  as upcoming when the event's date is today or later: on day 10 at 12:00, an hour
  after the event of day 10 has begun, the ticket is counted, while no ticket has an
  event date after today. And the total is answered as a float: the tickets that sum
  to 90080099990991.99 and those that sum to 90080099990991.98 get the same total.
\<close>

theorem stats_counterexample:
  "date_of noon_day10 = 10 \<and> combine 10 39600000000 < noon_day10
   \<and> stats db_sold 7 noon_day10 = (1, 1, Float 8444249301319680 (- 47))
   \<and> spec_upcoming_future db_sold 7 noon_day10 = 0
   \<and> spec_total_spent db_big 7 = 9008009999099199
   \<and> spec_total_spent db_big_less 7 = 9008009999099198
   \<and> stats db_big 7 0 = (1, 1, Float 5765126399423487 (- 6))
   \<and> stats db_big_less 7 0 = (2, 2, Float 5765126399423487 (- 6))"
  by code_simp

text \<open>
  C9, amended. The statistics of a user are the number of the user's tickets of any
  status, the number of the user's confirmed tickets whose event date is today or
  later, and the float of the sum of price times quantity over the user's confirmed
  tickets (the double nearest to that sum), each taken from the ticket rows of the
  database the view is called on.
\<close>

theorem stats_from_ticket_rows:
  "stats d uid now =
     (spec_total_count d uid, spec_upcoming_from_today d uid now,
      float_of_cents (spec_total_spent d uid))"
  by (simp add: stats_def get_queryset_def Let_def length_filter_count_where
      sum_list_filter_sum_where count_where_filter sum_where_filter
      event_date_gte_event_day
      spec_total_count_def spec_upcoming_from_today_def spec_total_spent_def)

end
